theory Spec2Isabelle
  imports Complex_Main "HOL-Library.Sublist"
begin

section \<open>Python values, errors and text formatting\<close>

text \<open>
  The benchmark suite is a set of Python scripts (\<^verbatim>\<open>cpu_benchmark.py\<close>,
  \<^verbatim>\<open>memory_benchmark.py\<close>, \<^verbatim>\<open>storage_benchmark.py\<close>, \<^verbatim>\<open>network_benchmark.py\<close>,
  \<^verbatim>\<open>gpu_benchmark.py\<close>). Each script gathers host facts, evaluates a dict literal
  whose values are calls of the benchmark functions, prints one line per entry and
  appends a report block to its log file.

  An exception is a value of \<open>py_error\<close>; a function that may raise returns
  \<open>py_error + 'a\<close> with \<open>Inl\<close> for the exception.
\<close>

datatype py_error = TypeError | IndexError | NameError | MemoryError | OSError

text \<open>
  The values a host-profile dict holds: strings, ints, floats and \<^verbatim>\<open>None\<close>. Floats
  are modelled by the real number they denote.
\<close>

datatype pyval = PyStr string | PyInt int | PyFloat real | PyNone

definition digit_char :: "nat \<Rightarrow> char" where
  "digit_char d = ''0123456789'' ! d"

fun str_nat :: "nat \<Rightarrow> string" where
  "str_nat n = (if n < 10 then [digit_char n] else str_nat (n div 10) @ [digit_char (n mod 10)])"

declare str_nat.simps [simp del]

definition str_int :: "int \<Rightarrow> string" where
  "str_int i = (if i < 0 then CHR ''-'' # str_nat (nat (- i)) else str_nat (nat i))"

text \<open>
  \<^verbatim>\<open>str(value)\<close> as the f-string \<^verbatim>\<open>f"{key}: {value}\n"\<close> applies it. The shortest
  round-trip text Python prints for a float is the interpreter's and is taken as the
  parameter \<open>repr\<close>.
\<close>

fun py_str :: "(real \<Rightarrow> string) \<Rightarrow> pyval \<Rightarrow> string" where
  "py_str repr (PyStr s) = s"
| "py_str repr (PyInt i) = str_int i"
| "py_str repr (PyFloat r) = repr r"
| "py_str repr PyNone = ''None''"

text \<open>Rounding to the nearest integer, ties to the even one.\<close>

definition round_half_even :: "real \<Rightarrow> int" where
  "round_half_even x =
     (let f = \<lfloor>x\<rfloor>; d = x - of_int f
      in if d < 1 / 2 then f else if 1 / 2 < d then f + 1 else if even f then f else f + 1)"

text \<open>\<^verbatim>\<open>round(x, 2)\<close>.\<close>

definition py_round2 :: "real \<Rightarrow> real" where
  "py_round2 x = of_int (round_half_even (x * 100)) / 100"

text \<open>
  The format specification \<^verbatim>\<open>.2f\<close> applied to a number: sign, integer part, a dot and
  exactly two decimals, the value correctly rounded (\<^verbatim>\<open>f"{-0.001:.2f}"\<close> is
  \<^verbatim>\<open>-0.00\<close>).
\<close>

definition format_2f :: "real \<Rightarrow> string" where
  "format_2f r =
     (let h = nat (round_half_even (\<bar>r\<bar> * 100))
      in (if r < 0 then ''-'' else '''') @ str_nat (h div 100) @ ''.'' @
         [digit_char (h mod 100 div 10), digit_char (h mod 10)])"

text \<open>
  What a benchmark function returns: the tuple \<^verbatim>\<open>(result, params)\<close>. The result is a
  float, or \<^verbatim>\<open>None\<close> where the function reports that it could not measure.
\<close>

type_synonym outcome = "real option \<times> string"

type_synonym results = "(string \<times> outcome) list"

type_synonym profile = "(string \<times> pyval) list"

text \<open>
  \<^verbatim>\<open>f"{test} ({params}): {result:.2f} sec"\<close>, the line of every script but the network
  one. Formatting \<^verbatim>\<open>None\<close> with \<^verbatim>\<open>.2f\<close> raises TypeError.
\<close>

fun result_line :: "string \<Rightarrow> outcome \<Rightarrow> py_error + string" where
  "result_line test (None, params) = Inl TypeError"
| "result_line test (Some r, params) =
     Inr (test @ '' ('' @ params @ ''): '' @ format_2f r @ '' sec'')"

text \<open>
  The network script's line:
  \<^verbatim>\<open>f"{test} ({params}): {result:.2f} sec" if isinstance(result, (int, float))
    else f"{test} ({params}): {result}"\<close>.
\<close>

fun network_result_line :: "string \<Rightarrow> outcome \<Rightarrow> py_error + string" where
  "network_result_line test (None, params) = Inr (test @ '' ('' @ params @ ''): None'')"
| "network_result_line test (Some r, params) =
     Inr (test @ '' ('' @ params @ ''): '' @ format_2f r @ '' sec'')"

section \<open>The host and the world a script runs in\<close>

text \<open>
  The facts \<^verbatim>\<open>platform\<close>, \<^verbatim>\<open>psutil\<close> and \<^verbatim>\<open>sys\<close> report. \<^verbatim>\<open>psutil.cpu_count\<close> may
  return \<^verbatim>\<open>None\<close>; \<open>disk_partitions\<close> lists the file system type of each partition;
  \<open>net_if_addrs\<close> lists the keys of \<^verbatim>\<open>psutil.net_if_addrs()\<close>.
\<close>

record host =
  platform_platform :: string
  platform_machine :: string
  cpu_count_logical :: "int option"
  cpu_count_physical :: "int option"
  sys_version :: string
  virtual_memory_total :: nat
  virtual_memory_available :: nat
  virtual_memory_used :: nat
  virtual_memory_percent :: real
  swap_memory_total :: nat
  swap_memory_used :: nat
  disk_partitions :: "string list"
  disk_usage_total :: nat
  net_if_addrs :: "string list"
  float_repr :: "real \<Rightarrow> string"

text \<open>
  The state a script reads and changes. \<open>clock w k\<close> is what the \<open>k\<close>-th call of
  \<^verbatim>\<open>time.time()\<close> returns and \<open>ticks\<close> counts the calls made so far; \<open>files\<close> maps a
  path to the file's contents; \<open>read_fails\<close> lists the paths that exist but that
  \<^verbatim>\<open>open(path, "rb")\<close> cannot open (a directory, a file the user may not read);
  \<open>open_handles\<close> counts the file objects that are open; \<open>stdout\<close> holds the text of
  every \<^verbatim>\<open>print\<close> call.
\<close>

record world =
  host :: host
  clock :: "nat \<Rightarrow> real"
  ticks :: nat
  files :: "string \<Rightarrow> string option"
  read_fails :: "string list"
  open_handles :: nat
  stdout :: "string list"

definition time_time :: "world \<Rightarrow> real \<times> world" where
  "time_time w = (clock w (ticks w), w\<lparr>ticks := Suc (ticks w)\<rparr>)"

definition print :: "string \<Rightarrow> world \<Rightarrow> world" where
  "print s w = w\<lparr>stdout := stdout w @ [s]\<rparr>"

text \<open>\<^verbatim>\<open>os.path.exists(path)\<close>\<close>

definition path_exists :: "world \<Rightarrow> string \<Rightarrow> bool" where
  "path_exists w path \<longleftrightarrow> files w path \<noteq> None \<or> path \<in> set (read_fails w)"

definition contents :: "world \<Rightarrow> string \<Rightarrow> string" where
  "contents w path = (case files w path of None \<Rightarrow> [] | Some c \<Rightarrow> c)"

text \<open>
  \<^verbatim>\<open>open(path, "a")\<close> creates the file when it is absent and keeps what it holds
  otherwise; \<^verbatim>\<open>log.write(s)\<close> puts \<open>s\<close> at the end. Leaving the \<^verbatim>\<open>with\<close> block
  closes the file object, whether the block ends normally or by an exception; the text
  written is in the file by then, so the model adds it at once.
\<close>

definition open_append :: "string \<Rightarrow> world \<Rightarrow> world" where
  "open_append path w =
     w\<lparr>files := (files w)(path \<mapsto> contents w path), open_handles := Suc (open_handles w)\<rparr>"

definition file_write :: "string \<Rightarrow> string \<Rightarrow> world \<Rightarrow> world" where
  "file_write path s w = w\<lparr>files := (files w)(path \<mapsto> contents w path @ s)\<rparr>"

definition file_close :: "world \<Rightarrow> world" where
  "file_close w = w\<lparr>open_handles := open_handles w - 1\<rparr>"

text \<open>A benchmark function called in a world: it raises or returns its tuple.\<close>

type_synonym unit_body = "world \<Rightarrow> (py_error + outcome) \<times> world"

section \<open>The two prime searches of the CPU script\<close>

text \<open>
  \<^verbatim>\<open>int(num**0.5)\<close>: the integer part of the square root. The float power is exact
  enough for this at the sizes the script uses, and the model takes the exact value.
\<close>

fun isqrt :: "nat \<Rightarrow> nat" where
  "isqrt 0 = 0"
| "isqrt (Suc n) = (let r = isqrt n in if Suc r * Suc r \<le> Suc n then Suc r else r)"

text \<open>\<^verbatim>\<open>all(num % i != 0 for i in range(2, int(num**0.5) + 1))\<close>\<close>

definition trial_division :: "nat \<Rightarrow> bool" where
  "trial_division num = list_all (\<lambda>i. num mod i \<noteq> 0) [2..<isqrt num + 1]"

text \<open>The list \<^verbatim>\<open>primes\<close> the loop of \<^verbatim>\<open>benchmark_prime_numbers\<close> builds.\<close>

definition brute_force_primes :: "nat \<Rightarrow> nat list" where
  "brute_force_primes n = filter trial_division [2..<n]"

text \<open>\<^verbatim>\<open>range(a, b, p)\<close> for a positive step.\<close>

definition range_step :: "nat \<Rightarrow> nat \<Rightarrow> nat \<Rightarrow> nat list" where
  "range_step a b p = map (\<lambda>k. a + k * p) [0..<(b - a + p - 1) div p]"

text \<open>\<^verbatim>\<open>for i in range(p * p, n + 1, p): primes[i] = False\<close>\<close>

definition cross_off :: "bool list \<Rightarrow> nat \<Rightarrow> nat \<Rightarrow> bool list" where
  "cross_off primes p n = fold (\<lambda>i ps. ps[i := False]) (range_step (p * p) (n + 1) p) primes"

text \<open>
  The \<^verbatim>\<open>while (p * p <= n)\<close> loop. Every index it reads or writes is at most \<open>n\<close>,
  inside the list of \<open>n + 1\<close> flags.
\<close>

function sieve_loop :: "bool list \<Rightarrow> nat \<Rightarrow> nat \<Rightarrow> bool list" where
  "sieve_loop primes p n =
     (if p * p \<le> n
      then sieve_loop (if primes ! p then cross_off primes p n else primes) (p + 1) n
      else primes)"
  by pat_completeness auto
termination
proof (relation "measure (\<lambda>(primes, p, n). n + 1 - p)")
  show "wf (measure (\<lambda>(primes, p, n). n + 1 - p))" by simp
next
  fix primes :: "bool list" and p n :: nat
  assume "p * p \<le> n"
  moreover have "p \<le> p * p" by (cases p) simp_all
  ultimately have "p \<le> n" by linarith
  then show "((if primes ! p then cross_off primes p n else primes, p + 1, n), (primes, p, n))
      \<in> measure (\<lambda>(primes, p, n). n + 1 - p)" by simp
qed

declare sieve_loop.simps [simp del]

text \<open>The list \<^verbatim>\<open>prime_numbers\<close> of \<^verbatim>\<open>benchmark_sieve_of_eratosthenes\<close>.\<close>

definition sieve_primes :: "nat \<Rightarrow> nat list" where
  "sieve_primes n =
     (let primes = sieve_loop (replicate (n + 1) True) 2 n
      in filter (\<lambda>p. primes ! p) [2..<n])"

text \<open>
  The two benchmark functions: read the clock, build the list, read the clock again and
  return \<^verbatim>\<open>end_time - start_time, f"n={n}"\<close>.
\<close>

definition benchmark_prime_numbers :: "nat \<Rightarrow> unit_body" where
  "benchmark_prime_numbers n w =
     (let (start_time, w1) = time_time w;
          primes = brute_force_primes n;
          (end_time, w2) = time_time w1
      in (Inr (Some (end_time - start_time), ''n='' @ str_nat n), w2))"

definition benchmark_sieve_of_eratosthenes :: "nat \<Rightarrow> unit_body" where
  "benchmark_sieve_of_eratosthenes n w =
     (let (start_time, w1) = time_time w;
          prime_numbers = sieve_primes n;
          (end_time, w2) = time_time w1
      in (Inr (Some (end_time - start_time), ''n='' @ str_nat n), w2))"

section \<open>Dicts, the dict literal of results and the report\<close>

text \<open>
  A dict keeps its keys in insertion order. Storing under a key that is present
  replaces the value and leaves the key where it is; no error is raised.
\<close>

fun dict_set :: "(string \<times> 'v) list \<Rightarrow> string \<Rightarrow> 'v \<Rightarrow> (string \<times> 'v) list" where
  "dict_set [] k v = [(k, v)]"
| "dict_set ((k', v') # d) k v =
     (if k' = k then (k', v) # d else (k', v') # dict_set d k v)"

text \<open>
  \<^verbatim>\<open>results = {name_1: body_1(), ..., name_k: body_k()}\<close>: the calls are made in the
  order written, each value is stored as soon as it is computed, and an exception of a
  call leaves the literal, and the function around it, at once.
\<close>

fun build_results :: "(string \<times> unit_body) list \<Rightarrow> results \<Rightarrow> world \<Rightarrow> (py_error + results) \<times> world" where
  "build_results [] acc w = (Inr acc, w)"
| "build_results ((name, body) # rest) acc w =
     (case body w of
        (Inl e, w') \<Rightarrow> (Inl e, w')
      | (Inr out, w') \<Rightarrow> build_results rest (dict_set acc name out) w')"

text \<open>
  \<^verbatim>\<open>for test, (result, params) in results.items(): print(line)\<close>
\<close>

fun print_results :: "(string \<Rightarrow> outcome \<Rightarrow> py_error + string) \<Rightarrow> results \<Rightarrow> world \<Rightarrow> (py_error + unit) \<times> world" where
  "print_results line [] w = (Inr (), w)"
| "print_results line ((test, out) # rest) w =
     (case line test out of
        Inl e \<Rightarrow> (Inl e, w)
      | Inr s \<Rightarrow> print_results line rest (print s w))"

text \<open>
  \<^verbatim>\<open>for test, (result, params) in results.items(): log.write(line + "\n")\<close>
\<close>

fun write_results :: "string \<Rightarrow> (string \<Rightarrow> outcome \<Rightarrow> py_error + string) \<Rightarrow> results \<Rightarrow> world \<Rightarrow> (py_error + unit) \<times> world" where
  "write_results path line [] w = (Inr (), w)"
| "write_results path line ((test, out) # rest) w =
     (case line test out of
        Inl e \<Rightarrow> (Inl e, w)
      | Inr s \<Rightarrow> write_results path line rest (file_write path (s @ ''\<newline>'') w))"

definition banner :: string where
  "banner = replicate 50 CHR ''=''"

text \<open>
  \<^verbatim>\<open>log_results(system_info, results)\<close>. The six scripts differ in the log path, the
  title, the label and (the network script) the line; the rest is the same text:
  \<^verbatim>\<open>
  with open(LOG_FILE, "a") as log:
      log.write("="*50 + "\n")
      log.write(f"<title>\n")
      log.write("="*50 + "\n")
      for key, value in system_info.items():
          log.write(f"{key}: {value}\n")
      log.write("\n<label>\n")
      for test, (result, params) in results.items():
          log.write(<line> + "\n")
      log.write("\n\n")
  \<close>
\<close>

definition log_results_to ::
  "string \<Rightarrow> string \<Rightarrow> string \<Rightarrow> (string \<Rightarrow> outcome \<Rightarrow> py_error + string) \<Rightarrow>
   profile \<Rightarrow> results \<Rightarrow> world \<Rightarrow> (py_error + unit) \<times> world" where
  "log_results_to path title label line system_info results w =
     (let w1 = open_append path w;
          w2 = file_write path (banner @ ''\<newline>'') w1;
          w3 = file_write path (title @ ''\<newline>'') w2;
          w4 = file_write path (banner @ ''\<newline>'') w3;
          w5 = fold (\<lambda>(key, value).
                  file_write path (key @ '': '' @ py_str (float_repr (host w)) value @ ''\<newline>''))
                system_info w4;
          w6 = file_write path (''\<newline>'' @ label @ ''\<newline>'') w5
      in case write_results path line results w6 of
           (Inl e, w7) \<Rightarrow> (Inl e, file_close w7)
         | (Inr u, w7) \<Rightarrow> (Inr (), file_close (file_write path ''\<newline>\<newline>'' w7)))"

text \<open>
  The function every script runs, \<^verbatim>\<open>run_benchmarks\<close> and its namesakes:
  \<^verbatim>\<open>
  system_info = get_system_info()
  print(<heading>)
  results = { ... }
  for test, (result, params) in results.items():
      print(<line>)
  log_results(system_info, results)
  print(<saved>, LOG_FILE)
  \<close>
  No statement of it is inside a \<^verbatim>\<open>try\<close>.
\<close>

definition run_suite ::
  "string \<Rightarrow> (world \<Rightarrow> py_error + profile) \<Rightarrow> (string \<times> unit_body) list \<Rightarrow>
   (string \<Rightarrow> outcome \<Rightarrow> py_error + string) \<Rightarrow>
   (profile \<Rightarrow> results \<Rightarrow> world \<Rightarrow> (py_error + unit) \<times> world) \<Rightarrow> string \<Rightarrow>
   world \<Rightarrow> (py_error + unit) \<times> world" where
  "run_suite heading get_info entries line write_log saved w =
     (case get_info w of
        Inl e \<Rightarrow> (Inl e, w)
      | Inr system_info \<Rightarrow>
          (case build_results entries [] (print heading w) of
             (Inl e, w2) \<Rightarrow> (Inl e, w2)
           | (Inr results, w2) \<Rightarrow>
               (case print_results line results w2 of
                  (Inl e, w3) \<Rightarrow> (Inl e, w3)
                | (Inr u, w3) \<Rightarrow>
                    (case write_log system_info results w3 of
                       (Inl e, w4) \<Rightarrow> (Inl e, w4)
                     | (Inr u', w4) \<Rightarrow> (Inr (), print saved w4)))))"

text \<open>\<^verbatim>\<open>"Cores": psutil.cpu_count(...)\<close>: an int or \<^verbatim>\<open>None\<close>.\<close>

definition count_val :: "int option \<Rightarrow> pyval" where
  "count_val c = (case c of None \<Rightarrow> PyNone | Some i \<Rightarrow> PyInt i)"

text \<open>\<^verbatim>\<open>round(x / (1024 ** 3), 2)\<close>\<close>

definition gigabytes :: "nat \<Rightarrow> pyval" where
  "gigabytes x = PyFloat (py_round2 (real x / 1024 ^ 3))"

section \<open>The CPU script\<close>

definition cpu_LOG_FILE :: string where
  "cpu_LOG_FILE = ''benchmark_log.txt''"

definition cpu_get_system_info :: "world \<Rightarrow> py_error + profile" where
  "cpu_get_system_info w =
     Inr [(''CPU'', PyStr (platform_platform (host w))),
          (''Architecture'', PyStr (platform_machine (host w))),
          (''Cores'', count_val (cpu_count_logical (host w))),
          (''Physical Cores'', count_val (cpu_count_physical (host w))),
          (''Python Version'', PyStr (sys_version (host w)))]"

text \<open>
  The six benchmark functions of the CPU script that call into \<^verbatim>\<open>hashlib\<close>,
  \<^verbatim>\<open>Crypto\<close>, \<^verbatim>\<open>zlib\<close>, \<^verbatim>\<open>numpy\<close> and \<^verbatim>\<open>threading\<close>, taken as they behave when called.
\<close>

record cpu_externals =
  benchmark_sha256 :: unit_body
  benchmark_aes_encryption :: unit_body
  benchmark_gzip_compression :: unit_body
  benchmark_numpy_operations :: unit_body
  benchmark_sorting :: unit_body
  benchmark_multi_threaded_prime :: unit_body

definition cpu_entries :: "cpu_externals \<Rightarrow> (string \<times> unit_body) list" where
  "cpu_entries ext =
     [(''Prime Number Calculation (Brute-Force)'', benchmark_prime_numbers 50000),
      (''Prime Number Calculation (Sieve of Eratosthenes)'', benchmark_sieve_of_eratosthenes 50000),
      (''SHA256 Hashing'', benchmark_sha256 ext),
      (''AES Encryption'', benchmark_aes_encryption ext),
      (''GZIP Compression'', benchmark_gzip_compression ext),
      (''NumPy Matrix Multiplication'', benchmark_numpy_operations ext),
      (''Sorting Algorithm'', benchmark_sorting ext),
      (''Multi-threaded Prime Calculation'', benchmark_multi_threaded_prime ext)]"

definition cpu_log_results :: "profile \<Rightarrow> results \<Rightarrow> world \<Rightarrow> (py_error + unit) \<times> world" where
  "cpu_log_results =
     log_results_to cpu_LOG_FILE ''CPU Benchmark Run '' ''Benchmark Results:'' result_line"

definition run_benchmarks :: "cpu_externals \<Rightarrow> world \<Rightarrow> (py_error + unit) \<times> world" where
  "run_benchmarks ext =
     run_suite ''Running CPU Benchmarks...\<newline>'' cpu_get_system_info (cpu_entries ext)
       result_line cpu_log_results (''\<newline>Benchmark results saved to: '' @ cpu_LOG_FILE)"

section \<open>The memory script\<close>

definition memory_LOG_FILE :: string where
  "memory_LOG_FILE = ''benchmark_memory_log.txt''"

definition memory_get_system_info :: "world \<Rightarrow> py_error + profile" where
  "memory_get_system_info w =
     Inr [(''CPU'', PyStr (platform_platform (host w))),
          (''Architecture'', PyStr (platform_machine (host w))),
          (''Cores'', count_val (cpu_count_logical (host w))),
          (''Physical Cores'', count_val (cpu_count_physical (host w))),
          (''Total Memory (GB)'', gigabytes (virtual_memory_total (host w))),
          (''Available Memory (GB)'', gigabytes (virtual_memory_available (host w))),
          (''Used Memory (GB)'', gigabytes (virtual_memory_used (host w))),
          (''Memory Usage (%)'', PyFloat (virtual_memory_percent (host w))),
          (''Swap Total (GB)'', gigabytes (swap_memory_total (host w))),
          (''Swap Used (GB)'', gigabytes (swap_memory_used (host w))),
          (''Python Version'', PyStr (sys_version (host w)))]"

text \<open>
  Four benchmark functions of the memory script, which allocate and walk large buffers,
  taken as they behave when called, and the two \<^verbatim>\<open>numpy\<close> calls of the fifth:
  \<^verbatim>\<open>np.ones(size_elements, dtype=np.float64)\<close> and \<^verbatim>\<open>np.copy(A)\<close>. An array is
  known by its number of elements; either call may raise (MemoryError).
\<close>

record memory_externals =
  benchmark_memory_read_write :: unit_body
  np_ones :: "nat \<Rightarrow> world \<Rightarrow> (py_error + nat) \<times> world"
  np_copy :: "nat \<Rightarrow> world \<Rightarrow> (py_error + nat) \<times> world"
  benchmark_memory_allocation :: unit_body
  benchmark_page_faults :: unit_body
  benchmark_random_access_latency :: unit_body

text \<open>
  \<^verbatim>\<open>
  def benchmark_memory_bandwidth(size_mb=500):
      size_elements = (size_mb * 1024 * 1024) // 8
      A = np.ones(size_elements, dtype=np.float64)
      start_time = time.time()
      B = np.copy(A)
      end_time = time.time()
      return end_time - start_time, f"size={size_mb}MB"
  \<close>
\<close>

definition benchmark_memory_bandwidth :: "memory_externals \<Rightarrow> nat \<Rightarrow> unit_body" where
  "benchmark_memory_bandwidth ext size_mb w =
     (let size_elements = (size_mb * 1024 * 1024) div 8
      in case np_ones ext size_elements w of
           (Inl e, w0) \<Rightarrow> (Inl e, w0)
         | (Inr A, w0) \<Rightarrow>
             (let (start_time, w1) = time_time w0
              in case np_copy ext A w1 of
                   (Inl e, w2) \<Rightarrow> (Inl e, w2)
                 | (Inr B, w2) \<Rightarrow>
                     (let (end_time, w3) = time_time w2
                      in (Inr (Some (end_time - start_time),
                               ''size='' @ str_nat size_mb @ ''MB''), w3))))"

definition memory_entries :: "memory_externals \<Rightarrow> (string \<times> unit_body) list" where
  "memory_entries ext =
     [(''Memory Read/Write Speed'', benchmark_memory_read_write ext),
      (''Memory Bandwidth Test'', benchmark_memory_bandwidth ext 500),
      (''Memory Allocation Stress Test'', benchmark_memory_allocation ext),
      (''Page Faults Test'', benchmark_page_faults ext),
      (''Random Access Latency'', benchmark_random_access_latency ext)]"

definition memory_log_results :: "profile \<Rightarrow> results \<Rightarrow> world \<Rightarrow> (py_error + unit) \<times> world" where
  "memory_log_results =
     log_results_to memory_LOG_FILE ''Memory Benchmark Run '' ''Memory Benchmark Results:'' result_line"

definition run_memory_benchmarks :: "memory_externals \<Rightarrow> world \<Rightarrow> (py_error + unit) \<times> world" where
  "run_memory_benchmarks ext =
     run_suite ''Running Memory Benchmarks...\<newline>'' memory_get_system_info (memory_entries ext)
       result_line memory_log_results
       (''\<newline>Memory benchmark results saved to: '' @ memory_LOG_FILE)"

section \<open>The storage script\<close>

definition storage_LOG_FILE :: string where
  "storage_LOG_FILE = ''benchmark_storage_log.txt''"

definition TEST_FILE :: string where
  "TEST_FILE = ''test_benchmark.dat''"

text \<open>
  The dict literal is evaluated entry by entry; \<^verbatim>\<open>psutil.disk_partitions()[0]\<close> raises
  IndexError on an empty list, after the entries before it were computed and before
  any later one is.
\<close>

definition storage_get_system_info :: "world \<Rightarrow> py_error + profile" where
  "storage_get_system_info w =
     (case disk_partitions (host w) of
        [] \<Rightarrow> Inl IndexError
      | part # others \<Rightarrow>
          Inr [(''CPU'', PyStr (platform_platform (host w))),
               (''Architecture'', PyStr (platform_machine (host w))),
               (''Cores'', count_val (cpu_count_logical (host w))),
               (''Physical Cores'', count_val (cpu_count_physical (host w))),
               (''Total Memory (GB)'', gigabytes (virtual_memory_total (host w))),
               (''Disk Type'', PyStr part),
               (''Total Disk Space (GB)'', gigabytes (disk_usage_total (host w))),
               (''Python Version'', PyStr (sys_version (host w)))])"

text \<open>
  \<^verbatim>\<open>
  def benchmark_sequential_read():
      if not os.path.exists(TEST_FILE):
          return None, "File not found"
      start_time = time.time()
      with open(TEST_FILE, "rb") as f:
          while f.read(1024 * 1024):
              pass
      end_time = time.time()
      return end_time - start_time, f"file={TEST_FILE}"
  \<close>
  Reading changes nothing but the clock. When the path exists and cannot be opened,
  \<^verbatim>\<open>open\<close> raises an OSError after the first clock reading.
\<close>

definition benchmark_sequential_read :: unit_body where
  "benchmark_sequential_read w =
     (if \<not> path_exists w TEST_FILE then (Inr (None, ''File not found''), w)
      else (let (start_time, w1) = time_time w
            in if TEST_FILE \<in> set (read_fails w1) then (Inl OSError, w1)
               else (let (end_time, w2) = time_time w1
                     in (Inr (Some (end_time - start_time), ''file='' @ TEST_FILE), w2))))"

text \<open>
  The other five benchmark functions of the storage script, which write, overwrite and
  delete scratch files, taken as they behave when called.
\<close>

record storage_externals =
  benchmark_sequential_write :: unit_body
  benchmark_random_read_write :: unit_body
  benchmark_file_iops :: unit_body
  benchmark_file_deletion :: unit_body
  benchmark_filesystem_latency :: unit_body

definition storage_entries :: "storage_externals \<Rightarrow> (string \<times> unit_body) list" where
  "storage_entries ext =
     [(''Sequential Write Speed'', benchmark_sequential_write ext),
      (''Sequential Read Speed'', benchmark_sequential_read),
      (''Random Read/Write Speed'', benchmark_random_read_write ext),
      (''File IOPS Test'', benchmark_file_iops ext),
      (''File Deletion Performance'', benchmark_file_deletion ext),
      (''Filesystem Latency Test'', benchmark_filesystem_latency ext)]"

definition storage_log_results :: "profile \<Rightarrow> results \<Rightarrow> world \<Rightarrow> (py_error + unit) \<times> world" where
  "storage_log_results =
     log_results_to storage_LOG_FILE ''Storage Benchmark Run '' ''Storage Benchmark Results:'' result_line"

definition run_storage_benchmarks :: "storage_externals \<Rightarrow> world \<Rightarrow> (py_error + unit) \<times> world" where
  "run_storage_benchmarks ext =
     run_suite ''Running Storage Benchmarks...\<newline>'' storage_get_system_info (storage_entries ext)
       result_line storage_log_results
       (''\<newline>Storage benchmark results saved to: '' @ storage_LOG_FILE)"

section \<open>The network script\<close>

definition network_LOG_FILE :: string where
  "network_LOG_FILE = ''network_benchmark_log.txt''"

text \<open>
  \<^verbatim>\<open>
  def get_default_interface():
      net_ifaces = psutil.net_if_addrs()
      if "eth0" in net_ifaces: return "eth0"
      elif "wlan0" in net_ifaces: return "wlan0"
      return None
  \<close>
\<close>

definition get_default_interface :: "world \<Rightarrow> string option" where
  "get_default_interface w =
     (if ''eth0'' \<in> set (net_if_addrs (host w)) then Some ''eth0''
      else if ''wlan0'' \<in> set (net_if_addrs (host w)) then Some ''wlan0''
      else None)"

definition network_get_system_info :: "world \<Rightarrow> py_error + profile" where
  "network_get_system_info w =
     Inr [(''CPU'', PyStr (platform_platform (host w))),
          (''Architecture'', PyStr (platform_machine (host w))),
          (''Cores'', count_val (cpu_count_logical (host w))),
          (''Physical Cores'', count_val (cpu_count_physical (host w))),
          (''Total Memory (GB)'', gigabytes (virtual_memory_total (host w))),
          (''Python Version'', PyStr (sys_version (host w)))]"

text \<open>
  The benchmark functions of the network script, which call \<^verbatim>\<open>speedtest\<close>, \<^verbatim>\<open>ping\<close>,
  \<^verbatim>\<open>iperf3\<close> and the resolver, taken as they behave when called with the interface.
\<close>

record network_externals =
  benchmark_download_speed :: "string \<Rightarrow> unit_body"
  benchmark_upload_speed :: "string \<Rightarrow> unit_body"
  benchmark_latency :: "string \<Rightarrow> unit_body"
  benchmark_packet_loss :: "string \<Rightarrow> unit_body"
  benchmark_bandwidth :: "string \<Rightarrow> unit_body"
  benchmark_dns_resolution :: unit_body

definition network_entries :: "network_externals \<Rightarrow> string \<Rightarrow> (string \<times> unit_body) list" where
  "network_entries ext interface =
     [(''Download Speed Test'', benchmark_download_speed ext interface),
      (''Upload Speed Test'', benchmark_upload_speed ext interface),
      (''Network Latency Test'', benchmark_latency ext interface),
      (''Packet Loss Test'', benchmark_packet_loss ext interface),
      (''Bandwidth Test (iperf3)'', benchmark_bandwidth ext interface),
      (''DNS Resolution Speed'', benchmark_dns_resolution ext)]"

definition network_log_results :: "profile \<Rightarrow> results \<Rightarrow> world \<Rightarrow> (py_error + unit) \<times> world" where
  "network_log_results =
     log_results_to network_LOG_FILE ''Network Benchmark Run '' ''Network Benchmark Results:''
       network_result_line"

definition run_network_benchmarks :: "network_externals \<Rightarrow> string \<Rightarrow> world \<Rightarrow> (py_error + unit) \<times> world" where
  "run_network_benchmarks ext interface =
     run_suite (''Running Network Benchmarks on '' @ interface @ ''...\<newline>'')
       network_get_system_info (network_entries ext interface)
       network_result_line network_log_results
       (''\<newline>Network benchmark results saved to: '' @ network_LOG_FILE)"

text \<open>
  The script's entry point, given the value of \<^verbatim>\<open>--interface\<close> when the option is on
  the command line:
  \<^verbatim>\<open>
  parser.add_argument("--interface", default=get_default_interface(), ...)
  args = parser.parse_args()
  if args.interface is None:
      print("No valid network interface found. Please specify manually.")
  else:
      run_network_benchmarks(args.interface)
  \<close>
  The result is the exit status of the interpreter with the world it leaves: 0 when the
  script runs to its end, 1 when an exception leaves it.
\<close>

definition network_main :: "network_externals \<Rightarrow> string option \<Rightarrow> world \<Rightarrow> int \<times> world" where
  "network_main ext option_value w =
     (let interface = (case option_value of None \<Rightarrow> get_default_interface w | Some i \<Rightarrow> Some i)
      in case interface of
           None \<Rightarrow> (0, print ''No valid network interface found. Please specify manually.'' w)
         | Some i \<Rightarrow>
             (case run_network_benchmarks ext i w of
                (Inl e, w') \<Rightarrow> (1, w')
              | (Inr u, w') \<Rightarrow> (0, w')))"

section \<open>The accelerator script\<close>

text \<open>
  The script binds the module by \<^verbatim>\<open>import pyopencl as cl\<close>, and the last entry of its
  profile reads \<^verbatim>\<open>"Available" if pyopencl.get_platforms() else "Not Available"\<close>: the
  name \<^verbatim>\<open>pyopencl\<close> is unbound, so evaluating the entry raises NameError.
\<close>

definition gpu_get_system_info :: "world \<Rightarrow> py_error + profile" where
  "gpu_get_system_info w = Inl NameError"

section \<open>Notions used to state the properties\<close>

text \<open>The text of a list of lines, each ended by a newline.\<close>

definition unlines :: "string list \<Rightarrow> string" where
  "unlines ls = concat (map (\<lambda>l. l @ ''\<newline>'') ls)"

definition profile_line :: "(real \<Rightarrow> string) \<Rightarrow> string \<times> pyval \<Rightarrow> string" where
  "profile_line repr = (\<lambda>(key, value). key @ '': '' @ py_str repr value)"

text \<open>
  The report block as the specification lays it out: banner, title, banner, one line per
  profile entry, an empty line, the label, one line per outcome, two empty lines.
\<close>

definition report_block :: "(real \<Rightarrow> string) \<Rightarrow> string \<Rightarrow> string \<Rightarrow> profile \<Rightarrow> string list \<Rightarrow> string" where
  "report_block repr title label system_info outcome_lines =
     unlines ([banner, title, banner] @ map (profile_line repr) system_info @
              ['''', label] @ outcome_lines @ ['''', ''''])"

text \<open>An entry of a results dict whose value is a float, and the line it is shown on.\<close>

definition numeric :: "string \<times> real \<times> string \<Rightarrow> string \<times> outcome" where
  "numeric = (\<lambda>(test, r, params). (test, (Some r, params)))"

definition success_line :: "string \<times> real \<times> string \<Rightarrow> string" where
  "success_line = (\<lambda>(test, r, params). test @ '' ('' @ params @ ''): '' @ format_2f r @ '' sec'')"

text \<open>
  What the loop over the results writes: how it ends, and the text written until then.
\<close>

fun rendered :: "(string \<Rightarrow> outcome \<Rightarrow> py_error + string) \<Rightarrow> results \<Rightarrow> (py_error + unit) \<times> string" where
  "rendered line [] = (Inr (), [])"
| "rendered line ((test, out) # rest) =
     (case line test out of
        Inl e \<Rightarrow> (Inl e, [])
      | Inr s \<Rightarrow> (case rendered line rest of (r, t) \<Rightarrow> (r, s @ ''\<newline>'' @ t)))"

text \<open>
  The float-valued tuples the benchmark functions of a list return, each function called
  in the world the one before it left, up to the first that raises or returns \<^verbatim>\<open>None\<close>;
  and the world the calls leave.
\<close>

fun returned :: "(string \<times> unit_body) list \<Rightarrow> world \<Rightarrow> (string \<times> real \<times> string) list" where
  "returned [] w = []"
| "returned ((name, body) # rest) w =
     (case body w of
        (Inr (Some r, params), w') \<Rightarrow> (name, r, params) # returned rest w'
      | (Inr (None, params), w') \<Rightarrow> []
      | (Inl e, w') \<Rightarrow> [])"

fun world_after :: "(string \<times> unit_body) list \<Rightarrow> world \<Rightarrow> world" where
  "world_after [] w = w"
| "world_after ((name, body) # rest) w = world_after rest (snd (body w))"

text \<open>
  Every benchmark function of the list, called in turn from the given world, returns a
  tuple whose result is a float.
\<close>

fun units_return :: "(string \<times> unit_body) list \<Rightarrow> world \<Rightarrow> bool" where
  "units_return [] w = True"
| "units_return ((name, body) # rest) w =
     (case body w of
        (Inr (Some r, params), w') \<Rightarrow> units_return rest w'
      | (Inr (None, params), w') \<Rightarrow> False
      | (Inl e, w') \<Rightarrow> False)"

text \<open>
  What \<open>log_results_to\<close> does on every path: the file keeps what it held and gains the
  header, the lines written before the loop ended and, when the loop ended normally,
  the two closing newlines; nothing else in the world changes.
\<close>

definition log_text ::
  "(real \<Rightarrow> string) \<Rightarrow> string \<Rightarrow> string \<Rightarrow> (string \<Rightarrow> outcome \<Rightarrow> py_error + string) \<Rightarrow> profile \<Rightarrow> results \<Rightarrow> string" where
  "log_text repr title label line system_info results =
     unlines ([banner, title, banner] @ map (profile_line repr) system_info @ ['''', label]) @
     snd (rendered line results) @
     (case fst (rendered line results) of Inl e \<Rightarrow> [] | Inr u \<Rightarrow> ''\<newline>\<newline>'')"

text \<open>
  The loop invariant: before the round for \<open>p\<close>, a flag is still set exactly when no
  \<open>d\<close> with \<open>2 \<le> d < p\<close> and \<open>d * d \<le> m\<close> divides its index \<open>m\<close>.
\<close>

definition sieve_inv :: "bool list \<Rightarrow> nat \<Rightarrow> nat \<Rightarrow> bool" where
  "sieve_inv primes p n \<longleftrightarrow>
     length primes = n + 1 \<and>
     (\<forall>m\<le>n. primes ! m \<longleftrightarrow> \<not> (\<exists>d. 2 \<le> d \<and> d < p \<and> d * d \<le> m \<and> d dvd m))"

section \<open>Sample hosts, worlds and benchmark functions\<close>

text \<open>A benchmark function of the suite's usual shape: two clock readings around its work.\<close>

definition stopwatch_unit :: "string \<Rightarrow> unit_body" where
  "stopwatch_unit params w =
     (let (start_time, w1) = time_time w;
          (end_time, w2) = time_time w1
      in (Inr (Some (end_time - start_time), params), w2))"

text \<open>A benchmark function whose body raises.\<close>

definition raising_unit :: "py_error \<Rightarrow> unit_body" where
  "raising_unit e w = (Inl e, w)"

definition sample_host :: host where
  "sample_host =
     \<lparr>platform_platform = ''Linux-6.1.0-x86_64-with-glibc2.36'', platform_machine = ''x86_64'',
      cpu_count_logical = Some 8, cpu_count_physical = Some 4, sys_version = ''3.11.2'',
      virtual_memory_total = 17179869184, virtual_memory_available = 8589934592,
      virtual_memory_used = 8589934592, virtual_memory_percent = 50,
      swap_memory_total = 0, swap_memory_used = 0,
      disk_partitions = [''ext4''], disk_usage_total = 536870912000,
      net_if_addrs = [''lo'', ''eth0''], float_repr = format_2f\<rparr>"

text \<open>A fresh directory, nothing printed yet, a clock that advances by 0.25 s a reading.\<close>

definition sample_world :: world where
  "sample_world =
     \<lparr>host = sample_host, clock = (\<lambda>k. real k / 4), ticks = 0, files = (\<lambda>p. None),
      read_fails = [], open_handles = 0, stdout = []\<rparr>"

text \<open>The same world after the wall clock was set back between two readings.\<close>

definition clock_set_back_world :: world where
  "clock_set_back_world = sample_world\<lparr>clock := (\<lambda>k. if k = 0 then 10 else 5)\<rparr>"

text \<open>A host with no disk partition listed, and one with only the loopback interface.\<close>

definition no_partition_world :: world where
  "no_partition_world = sample_world\<lparr>host := sample_host\<lparr>disk_partitions := []\<rparr>\<rparr>"

definition loopback_only_world :: world where
  "loopback_only_world = sample_world\<lparr>host := sample_host\<lparr>net_if_addrs := [''lo'']\<rparr>\<rparr>"

definition cpu_all_return :: cpu_externals where
  "cpu_all_return =
     \<lparr>benchmark_sha256 = stopwatch_unit ''iterations=100000'',
      benchmark_aes_encryption = stopwatch_unit ''iterations=100000'',
      benchmark_gzip_compression = stopwatch_unit ''size=5000000 bytes'',
      benchmark_numpy_operations = stopwatch_unit ''matrix_size=500x500'',
      benchmark_sorting = stopwatch_unit ''n=1000000'',
      benchmark_multi_threaded_prime = stopwatch_unit ''n=10000, threads=4''\<rparr>"

text \<open>The CPU suite on a host where the matrix allocation fails.\<close>

definition cpu_numpy_raises :: cpu_externals where
  "cpu_numpy_raises = cpu_all_return\<lparr>benchmark_numpy_operations := raising_unit MemoryError\<rparr>"

definition memory_all_return :: memory_externals where
  "memory_all_return =
     \<lparr>benchmark_memory_read_write = stopwatch_unit ''size=500MB'',
      np_ones = (\<lambda>size_elements w. (Inr size_elements, w)),
      np_copy = (\<lambda>A w. (Inr A, w)),
      benchmark_memory_allocation = stopwatch_unit ''size=1000MB'',
      benchmark_page_faults = stopwatch_unit ''iterations=1000000'',
      benchmark_random_access_latency = stopwatch_unit ''iterations=100000''\<rparr>"

text \<open>The memory suite on a host where the array copy cannot be allocated.\<close>

definition memory_bandwidth_raises :: memory_externals where
  "memory_bandwidth_raises =
     memory_all_return\<lparr>np_copy := (\<lambda>A w. (Inl MemoryError, w))\<rparr>"

definition network_all_return :: network_externals where
  "network_all_return =
     \<lparr>benchmark_download_speed = (\<lambda>interface. stopwatch_unit interface),
      benchmark_upload_speed = (\<lambda>interface. stopwatch_unit interface),
      benchmark_latency = (\<lambda>interface. stopwatch_unit interface),
      benchmark_packet_loss = (\<lambda>interface. stopwatch_unit interface),
      benchmark_bandwidth = (\<lambda>interface. stopwatch_unit interface),
      benchmark_dns_resolution = stopwatch_unit ''DNS Resolution Time''\<rparr>"

definition storage_random_raises :: storage_externals where
  "storage_random_raises =
     \<lparr>benchmark_sequential_write = stopwatch_unit ''size=500MB'',
      benchmark_random_read_write = raising_unit OSError,
      benchmark_file_iops = stopwatch_unit ''operations=10000'',
      benchmark_file_deletion = stopwatch_unit ''num_files=1000'',
      benchmark_filesystem_latency = stopwatch_unit ''num_files=1000''\<rparr>"

section \<open>Correctness of the sieve against trial division\<close>

lemma isqrt_bounds: "isqrt n * isqrt n \<le> n \<and> n < Suc (isqrt n) * Suc (isqrt n)"
  by (induction n) (auto simp: Let_def)

lemma isqrt_le_iff: "d \<le> isqrt m \<longleftrightarrow> d * d \<le> m"
proof
  assume "d \<le> isqrt m"
  then have "d * d \<le> isqrt m * isqrt m" by (simp add: mult_le_mono)
  with isqrt_bounds[of m] show "d * d \<le> m" by linarith
next
  assume h: "d * d \<le> m"
  show "d \<le> isqrt m"
  proof (rule ccontr)
    assume "\<not> d \<le> isqrt m"
    then have "Suc (isqrt m) \<le> d" by simp
    then have "Suc (isqrt m) * Suc (isqrt m) \<le> d * d" by (simp only: mult_le_mono)
    with isqrt_bounds[of m] h show False by linarith
  qed
qed

lemma trial_division_iff:
  "trial_division m \<longleftrightarrow> (\<forall>d. 2 \<le> d \<and> d * d \<le> m \<longrightarrow> \<not> d dvd m)"
  by (auto simp: trial_division_def list_all_iff isqrt_le_iff[symmetric] dvd_eq_mod_eq_0)

lemma range_step_mem:
  assumes "0 < p"
  shows "m \<in> set (range_step a b p) \<longleftrightarrow> a \<le> m \<and> m < b \<and> p dvd (m - a)"
proof -
  have bound: "k < (b - a + p - 1) div p \<longleftrightarrow> a + k * p < b" for k
  proof -
    have "k < (b - a + p - 1) div p \<longleftrightarrow> Suc k \<le> (b - a + p - 1) div p" by auto
    also have "\<dots> \<longleftrightarrow> Suc k * p \<le> b - a + p - 1"
      using assms by (simp only: less_eq_div_iff_mult_less_eq)
    also have "\<dots> \<longleftrightarrow> a + k * p < b" using assms by auto
    finally show ?thesis .
  qed
  show ?thesis
  proof
    assume "m \<in> set (range_step a b p)"
    then obtain k where "k < (b - a + p - 1) div p" "m = a + k * p"
      by (auto simp: range_step_def)
    then show "a \<le> m \<and> m < b \<and> p dvd (m - a)" using bound by simp
  next
    assume h: "a \<le> m \<and> m < b \<and> p dvd (m - a)"
    then obtain k where k: "m - a = k * p" by (auto simp: dvd_def mult.commute)
    with h have m: "m = a + k * p" by linarith
    with h bound have "k < (b - a + p - 1) div p" by simp
    with m show "m \<in> set (range_step a b p)" by (auto simp: range_step_def)
  qed
qed

lemma fold_clear_length: "length (fold (\<lambda>i ps. ps[i := False]) js ps) = length ps"
  by (induction js arbitrary: ps) simp_all

lemma fold_clear_nth:
  "m < length ps \<Longrightarrow>
   fold (\<lambda>i ps. ps[i := False]) js ps ! m \<longleftrightarrow> ps ! m \<and> m \<notin> set js"
proof (induction js arbitrary: ps)
  case Nil
  then show ?case by simp
next
  case (Cons j js)
  have "fold (\<lambda>i ps. ps[i := False]) (j # js) ps ! m
        \<longleftrightarrow> fold (\<lambda>i ps. ps[i := False]) js (ps[j := False]) ! m" by simp
  also have "\<dots> \<longleftrightarrow> ps[j := False] ! m \<and> m \<notin> set js"
    using Cons.prems by (intro Cons.IH) simp
  also have "\<dots> \<longleftrightarrow> ps ! m \<and> m \<notin> set (j # js)"
    using Cons.prems by (cases "j < length ps") (auto simp: nth_list_update)
  finally show ?case .
qed

lemma cross_off_length: "length (cross_off primes p n) = length primes"
  by (simp add: cross_off_def fold_clear_length)

lemma cross_off_nth:
  assumes "0 < p" "m < length primes"
  shows "cross_off primes p n ! m \<longleftrightarrow> primes ! m \<and> \<not> (p * p \<le> m \<and> m \<le> n \<and> p dvd m)"
proof -
  have dvd: "p dvd (m - p * p) \<longleftrightarrow> p dvd m" if "p * p \<le> m"
  proof -
    from that have "m = (m - p * p) + p * p" by simp
    then have "p dvd m \<longleftrightarrow> p dvd ((m - p * p) + p * p)" by simp
    also have "\<dots> \<longleftrightarrow> p dvd (m - p * p)" by (rule dvd_add_left_iff) simp
    finally show ?thesis by simp
  qed
  have "cross_off primes p n ! m \<longleftrightarrow> primes ! m \<and> m \<notin> set (range_step (p * p) (n + 1) p)"
    unfolding cross_off_def using assms(2) by (rule fold_clear_nth)
  also have "m \<in> set (range_step (p * p) (n + 1) p) \<longleftrightarrow> p * p \<le> m \<and> m < n + 1 \<and> p dvd (m - p * p)"
    using assms(1) by (rule range_step_mem)
  also have "\<dots> \<longleftrightarrow> p * p \<le> m \<and> m \<le> n \<and> p dvd m"
    using dvd by (cases "p * p \<le> m") (simp_all add: less_Suc_eq_le)
  finally show ?thesis .
qed

lemma sieve_inv_step:
  assumes inv: "sieve_inv primes p n" and p: "2 \<le> p" and pn: "p * p \<le> n"
  shows "sieve_inv (if primes ! p then cross_off primes p n else primes) (p + 1) n"
proof -
  have len: "length primes = n + 1" using inv by (simp add: sieve_inv_def)
  have old: "primes ! m \<longleftrightarrow> \<not> (\<exists>d. 2 \<le> d \<and> d < p \<and> d * d \<le> m \<and> d dvd m)" if "m \<le> n" for m
    using inv that by (simp add: sieve_inv_def)
  have "p \<le> p * p" by (cases p) simp_all
  with pn have ple: "p \<le> n" by linarith
  show ?thesis
  proof (cases "primes ! p")
    case True
    have "cross_off primes p n ! m \<longleftrightarrow>
          \<not> (\<exists>d. 2 \<le> d \<and> d < p + 1 \<and> d * d \<le> m \<and> d dvd m)" if mn: "m \<le> n" for m
    proof -
      have "cross_off primes p n ! m = (primes ! m \<and> \<not> (p * p \<le> m \<and> m \<le> n \<and> p dvd m))"
        using p mn len by (intro cross_off_nth) auto
      also have "\<dots> \<longleftrightarrow> \<not> (\<exists>d. 2 \<le> d \<and> d < p + 1 \<and> d * d \<le> m \<and> d dvd m)"
        using old[OF mn] mn p by (auto simp: less_Suc_eq)
      finally show ?thesis .
    qed
    with True len show ?thesis by (simp add: sieve_inv_def cross_off_length)
  next
    case False
    with old[OF ple] obtain d where d: "2 \<le> d" "d < p" "d * d \<le> p" "d dvd p" by auto
    have "primes ! m \<longleftrightarrow>
          \<not> (\<exists>d. 2 \<le> d \<and> d < p + 1 \<and> d * d \<le> m \<and> d dvd m)" if mn: "m \<le> n" for m
    proof (cases "p * p \<le> m \<and> p dvd m")
      case True
      then have "p \<le> m" using \<open>p \<le> p * p\<close> by linarith
      with d True have "2 \<le> d \<and> d < p \<and> d * d \<le> m \<and> d dvd m" by (auto intro: dvd_trans)
      with old[OF mn] have "\<not> primes ! m" by blast
      moreover have "2 \<le> p \<and> p < p + 1 \<and> p * p \<le> m \<and> p dvd m" using True p by simp
      ultimately show ?thesis by blast
    next
      case False
      then show ?thesis using old[OF mn] by (auto simp: less_Suc_eq)
    qed
    with False len show ?thesis by (simp add: sieve_inv_def)
  qed
qed

lemma sieve_loop_inv:
  "sieve_inv primes p n \<Longrightarrow> 2 \<le> p \<Longrightarrow>
   length (sieve_loop primes p n) = n + 1 \<and>
   (\<forall>m\<le>n. sieve_loop primes p n ! m \<longleftrightarrow> \<not> (\<exists>d. 2 \<le> d \<and> d * d \<le> m \<and> d dvd m))"
proof (induction primes p n rule: sieve_loop.induct)
  case (1 primes p n)
  show ?case
  proof (cases "p * p \<le> n")
    case True
    have "sieve_inv (if primes ! p then cross_off primes p n else primes) (p + 1) n"
      using "1.prems" True by (intro sieve_inv_step) auto
    then have "length (sieve_loop (if primes ! p then cross_off primes p n else primes) (p + 1) n) = n + 1 \<and>
      (\<forall>m\<le>n. sieve_loop (if primes ! p then cross_off primes p n else primes) (p + 1) n ! m \<longleftrightarrow>
         \<not> (\<exists>d. 2 \<le> d \<and> d * d \<le> m \<and> d dvd m))"
      using "1.IH"[OF True] "1.prems" by simp
    moreover have "sieve_loop primes p n =
        sieve_loop (if primes ! p then cross_off primes p n else primes) (p + 1) n"
      using True by (subst sieve_loop.simps) simp
    ultimately show ?thesis by simp
  next
    case False
    have small: "d < p" if "d * d \<le> m" "m \<le> n" for d m
    proof (rule ccontr)
      assume "\<not> d < p"
      then have "p * p \<le> d * d" by (simp add: mult_le_mono)
      with that False show False by linarith
    qed
    have "sieve_loop primes p n = primes" using False by (subst sieve_loop.simps) simp
    moreover have "length primes = n + 1" using "1.prems" by (simp add: sieve_inv_def)
    moreover have "primes ! m \<longleftrightarrow> \<not> (\<exists>d. 2 \<le> d \<and> d * d \<le> m \<and> d dvd m)" if "m \<le> n" for m
      using "1.prems"(1) that small[OF _ that] by (auto simp: sieve_inv_def)
    ultimately show ?thesis by simp
  qed
qed

lemma sieve_inv_init: "sieve_inv (replicate (n + 1) True) 2 n"
proof -
  have "replicate (n + 1) True ! m" if "m \<le> n" for m
    using that nth_replicate[of m "n + 1" True] by simp
  then show ?thesis by (simp add: sieve_inv_def del: replicate.simps replicate_Suc)
qed

text \<open>
  Claim C10. For every \<open>n\<close> (in particular every \<open>n \<ge> 2\<close>) the list of primes the
  brute-force loop of \<^verbatim>\<open>benchmark_prime_numbers\<close> builds and the list the sieve of
  \<^verbatim>\<open>benchmark_sieve_of_eratosthenes\<close> builds are the same list, hence the same set:
  the numbers of \<open>[2, n)\<close> with no divisor in \<open>[2, sqrt num]\<close>.
\<close>

theorem sieve_equals_brute_force:
  "sieve_primes n = brute_force_primes n \<and>
   set (sieve_primes n) = {m. 2 \<le> m \<and> m < n \<and> (\<forall>d. 2 \<le> d \<and> d * d \<le> m \<longrightarrow> \<not> d dvd m)}"
proof -
  have "filter (\<lambda>p. sieve_loop (replicate (n + 1) True) 2 n ! p) [2..<n] = filter trial_division [2..<n]"
  proof (rule filter_cong[OF refl])
    fix m assume "m \<in> set [2..<n]"
    then have "m \<le> n" by simp
    then show "sieve_loop (replicate (n + 1) True) 2 n ! m = trial_division m"
      using sieve_loop_inv[OF sieve_inv_init, of n] unfolding trial_division_iff by blast
  qed
  then have eq: "sieve_primes n = brute_force_primes n"
    by (simp add: sieve_primes_def brute_force_primes_def)
  have "set (brute_force_primes n) =
      {m. 2 \<le> m \<and> m < n \<and> (\<forall>d. 2 \<le> d \<and> d * d \<le> m \<longrightarrow> \<not> d dvd m)}"
    unfolding brute_force_primes_def set_filter trial_division_iff by auto
  with eq show ?thesis by simp
qed

theorem sieve_equals_brute_force_witness:
  "sieve_primes 30 = [2, 3, 5, 7, 11, 13, 17, 19, 23, 29] \<and>
   brute_force_primes 30 = [2, 3, 5, 7, 11, 13, 17, 19, 23, 29]"
proof -
  have "brute_force_primes 30 = [2, 3, 5, 7, 11, 13, 17, 19, 23, 29]" by code_simp
  with sieve_equals_brute_force[of 30] show ?thesis by simp
qed

section \<open>Writing the report: lemmas\<close>

lemma file_write_twice: "file_write p b (file_write p a w) = file_write p (a @ b) w"
  by (simp add: file_write_def contents_def)

lemma fold_file_write:
  "fold (\<lambda>x. file_write p (f x)) xs (file_write p s w) = file_write p (s @ concat (map f xs)) w"
  by (induction xs arbitrary: s) (simp_all add: file_write_twice)

lemma write_results_rendered:
  "write_results p line results (file_write p s w) =
     (fst (rendered line results), file_write p (s @ snd (rendered line results)) w)"
proof (induction results arbitrary: s)
  case Nil
  then show ?case by simp
next
  case (Cons entry results)
  obtain test out where entry: "entry = (test, out)" by (cases entry)
  show ?case
  proof (cases "line test out")
    case (Inl e)
    then show ?thesis by (simp add: entry)
  next
    case (Inr t)
    then show ?thesis
      by (simp add: entry file_write_twice Cons.IH split: prod.splits)
  qed
qed

lemma close_write_open:
  "file_close (file_write p t (open_append p w)) = w\<lparr>files := (files w)(p \<mapsto> contents w p @ t)\<rparr>"
  by (simp add: file_close_def file_write_def open_append_def contents_def)

lemma log_results_to_eq:
  "log_results_to p title label line si results w =
     (fst (rendered line results),
      w\<lparr>files := (files w)(p \<mapsto> contents w p @ log_text (float_repr (host w)) title label line si results)\<rparr>)"
proof -
  define hdr where "hdr = unlines ([banner, title, banner] @ map (profile_line (float_repr (host w))) si @ ['''', label])"
  define w1 where "w1 = open_append p w"
  have fold_eq: "(\<lambda>(key, value). file_write p (key @ '': '' @ py_str (float_repr (host w)) value @ ''\<newline>''))
      = (\<lambda>x. file_write p (profile_line (float_repr (host w)) x @ ''\<newline>''))"
    by (auto simp: profile_line_def fun_eq_iff)
  have pre: "file_write p (''\<newline>'' @ label @ ''\<newline>'')
        (fold (\<lambda>(key, value). file_write p (key @ '': '' @ py_str (float_repr (host w)) value @ ''\<newline>'')) si
          (file_write p (banner @ ''\<newline>'') (file_write p (title @ ''\<newline>'') (file_write p (banner @ ''\<newline>'') w1))))
      = file_write p hdr w1"
    unfolding fold_eq by (simp add: file_write_twice fold_file_write hdr_def unlines_def comp_def)
  show ?thesis
  proof (cases "fst (rendered line results)")
    case (Inl e)
    then show ?thesis
      unfolding log_results_to_def Let_def w1_def[symmetric] pre
      by (simp add: write_results_rendered w1_def close_write_open log_text_def hdr_def)
  next
    case (Inr u)
    then show ?thesis
      unfolding log_results_to_def Let_def w1_def[symmetric] pre
      by (simp add: write_results_rendered w1_def close_write_open log_text_def hdr_def file_write_twice)
  qed
qed

lemma rendered_numeric:
  "rendered result_line (map numeric timed) = (Inr (), unlines (map success_line timed))"
  by (induction timed) (auto simp: numeric_def success_line_def unlines_def)

lemma rendered_numeric_network:
  "rendered network_result_line (map numeric timed) = (Inr (), unlines (map success_line timed))"
  by (induction timed) (auto simp: numeric_def success_line_def unlines_def)

lemma log_text_numeric:
  "log_text repr title label result_line si (map numeric timed) =
     report_block repr title label si (map success_line timed)"
  by (simp add: log_text_def rendered_numeric report_block_def unlines_def)

lemma log_results_to_numeric:
  "log_results_to p title label result_line si (map numeric timed) w =
     (Inr (),
      w\<lparr>files := (files w)(p \<mapsto> contents w p @
           report_block (float_repr (host w)) title label si (map success_line timed))\<rparr>)"
  by (simp add: log_results_to_eq log_text_numeric rendered_numeric)

section \<open>Running the suite: lemmas\<close>

lemma dict_set_fresh: "k \<notin> fst ` set d \<Longrightarrow> dict_set d k v = d @ [(k, v)]"
  by (induction d) auto

lemma dict_set_keys:
  "map fst (dict_set d k v) = (if k \<in> fst ` set d then map fst d else map fst d @ [k])"
proof (induction d)
  case Nil
  then show ?case by simp
next
  case (Cons entry d)
  obtain k' v' where entry: "entry = (k', v')" by (cases entry)
  show ?case
  proof (cases "k' = k")
    case True
    then show ?thesis by (simp add: entry)
  next
    case False
    then have "k \<in> fst ` set (entry # d) \<longleftrightarrow> k \<in> fst ` set d" by (auto simp: entry)
    then show ?thesis using False Cons.IH by (simp add: entry)
  qed
qed

lemma dict_set_lookup: "map_of (dict_set d k v) k = Some v"
  by (induction d) auto

lemma dict_set_distinct: "distinct (map fst d) \<Longrightarrow> distinct (map fst (dict_set d k v))"
  by (simp add: dict_set_keys)

lemma build_results_append:
  "build_results (es1 @ es2) acc w =
     (case build_results es1 acc w of
        (Inl e, w') \<Rightarrow> (Inl e, w')
      | (Inr r, w') \<Rightarrow> build_results es2 r w')"
  by (induction es1 acc w rule: build_results.induct) (auto split: prod.splits sum.splits)

lemma build_results_distinct:
  "build_results es acc w = (Inr r, w') \<Longrightarrow> distinct (map fst acc) \<Longrightarrow> distinct (map fst r)"
  by (induction es acc w rule: build_results.induct)
     (auto split: prod.splits sum.splits simp: dict_set_distinct)

lemma units_return_append: "units_return (es1 @ es2) w \<Longrightarrow> units_return es1 w"
  by (induction es1 w rule: units_return.induct) (auto split: prod.splits sum.splits option.splits)

lemma build_results_return:
  "units_return es w \<Longrightarrow> distinct (map fst acc @ map fst es) \<Longrightarrow>
   build_results es acc w = (Inr (acc @ map numeric (returned es w)), world_after es w) \<and>
   map fst (returned es w) = map fst es"
proof (induction es arbitrary: acc w)
  case Nil
  then show ?case by simp
next
  case (Cons entry es)
  obtain name body where entry: "entry = (name, body)" by (cases entry)
  from Cons.prems(1) obtain r params w1 where body: "body w = (Inr (Some r, params), w1)"
    and rest: "units_return es w1"
    by (auto simp: entry split: prod.splits sum.splits option.splits)
  from Cons.prems(2) have fresh: "name \<notin> fst ` set acc"
    and dist: "distinct (map fst (acc @ [(name, (Some r, params))]) @ map fst es)"
    by (auto simp: entry)
  from Cons.IH[OF rest dist]
  have run: "build_results es (acc @ [(name, (Some r, params))]) w1 =
               (Inr ((acc @ [(name, (Some r, params))]) @ map numeric (returned es w1)),
                world_after es w1)"
    and names: "map fst (returned es w1) = map fst es" by simp_all
  have "build_results (entry # es) acc w =
          (Inr (acc @ map numeric (returned (entry # es) w)), world_after (entry # es) w)"
    using body run by (simp add: entry dict_set_fresh[OF fresh] numeric_def)
  moreover have "map fst (returned (entry # es) w) = map fst (entry # es)"
    using names body by (simp add: entry)
  ultimately show ?case by blast
qed

lemma returned_take: "units_return es w \<Longrightarrow> returned (take k es) w = take k (returned es w)"
proof (induction es arbitrary: k w)
  case Nil
  then show ?case by simp
next
  case (Cons entry es)
  obtain name body where entry: "entry = (name, body)" by (cases entry)
  from Cons.prems obtain r params w1 where body: "body w = (Inr (Some r, params), w1)"
    and rest: "units_return es w1"
    by (auto simp: entry split: prod.splits sum.splits option.splits)
  show ?case
  proof (cases k)
    case 0
    then show ?thesis by simp
  next
    case (Suc j)
    then show ?thesis using body Cons.IH[OF rest, of j] by (simp add: entry)
  qed
qed

lemma returned_nth:
  "units_return es w \<Longrightarrow> k < length es \<Longrightarrow>
   snd (es ! k) (world_after (take k es) w)
     = (Inr (snd (numeric (returned es w ! k))), world_after (take (Suc k) es) w)"
proof (induction es arbitrary: k w)
  case Nil
  then show ?case by simp
next
  case (Cons entry es)
  obtain name body where entry: "entry = (name, body)" by (cases entry)
  from Cons.prems(1) obtain r params w1 where body: "body w = (Inr (Some r, params), w1)"
    and rest: "units_return es w1"
    by (auto simp: entry split: prod.splits sum.splits option.splits)
  show ?case
  proof (cases k)
    case 0
    then show ?thesis using body by (simp add: entry numeric_def)
  next
    case (Suc j)
    with Cons.prems(2) have "j < length es" by simp
    from Cons.IH[OF rest this] show ?thesis using body Suc by (simp add: entry)
  qed
qed

lemma print_results_numeric:
  "print_results result_line (map numeric timed) w =
     (Inr (), w\<lparr>stdout := stdout w @ map success_line timed\<rparr>)"
  by (induction timed arbitrary: w) (auto simp: numeric_def success_line_def print_def)

lemma run_suite_numeric:
  assumes "get_info w = Inr si"
      and "build_results entries [] (print heading w) = (Inr (map numeric timed), w2)"
  shows "run_suite heading get_info entries result_line
           (log_results_to path title label result_line) saved w =
         (Inr (),
          w2\<lparr>stdout := stdout w2 @ map success_line timed @ [saved],
             files := (files w2)(path \<mapsto> contents w2 path @
               report_block (float_repr (host w2)) title label si (map success_line timed))\<rparr>)"
  using assms
  by (simp add: run_suite_def print_results_numeric log_results_to_numeric print_def contents_def)

section \<open>The claims about the runner, the profile and the log\<close>

lemmas sample_defs =
  sample_world_def sample_host_def stopwatch_unit_def raising_unit_def time_time_def print_def

lemma map_fst_numeric: "map fst (map numeric timed) = map fst timed"
  by (induction timed) (auto simp: numeric_def)

lemma units_return_rest:
  "units_return (es1 @ es2) w \<Longrightarrow> build_results es1 acc w = (Inr r, w1) \<Longrightarrow>
   units_return es2 w1"
  by (induction es1 acc w rule: build_results.induct)
     (auto split: prod.splits sum.splits option.splits)

text \<open>
  Claim C1, as the code has it. No script wraps a call of a benchmark function in a
  \<^verbatim>\<open>try\<close>. When the functions before one returned and that one raises, the exception
  leaves the run: the result is the exception, the world is the one the raising call left
  (no later function is called, no result line is printed, nothing is written to the
  log), and the outcomes recorded so far are dropped with the unfinished dict.
\<close>

theorem run_suite_unit_raises:
  assumes "get_info w = Inr si"
      and "build_results before [] (print heading w) = (Inr recorded, w1)"
      and "body w1 = (Inl e, w2)"
  shows "run_suite heading get_info (before @ (name, body) # after) line write_log saved w
           = (Inl e, w2)"
  using assms by (simp add: run_suite_def build_results_append)

text \<open>
  The storage suite on a host where the random read/write test raises OSError after the
  two sequential tests returned: the run ends with OSError, only the heading was printed
  and the log file does not exist.
\<close>

theorem run_suite_unit_raises_witness:
  "fst (run_storage_benchmarks storage_random_raises sample_world) = Inl OSError \<and>
   stdout (snd (run_storage_benchmarks storage_random_raises sample_world))
     = [''Running Storage Benchmarks...\<newline>''] \<and>
   files (snd (run_storage_benchmarks storage_random_raises sample_world)) storage_LOG_FILE = None"
proof -
  let ?heading = "''Running Storage Benchmarks...\<newline>''"
  let ?before = "[(''Sequential Write Speed'', stopwatch_unit ''size=500MB''),
                  (''Sequential Read Speed'', benchmark_sequential_read)]"
  let ?after = "[(''File IOPS Test'', stopwatch_unit ''operations=10000''),
                 (''File Deletion Performance'', stopwatch_unit ''num_files=1000''),
                 (''Filesystem Latency Test'', stopwatch_unit ''num_files=1000'')]"
  have info: "storage_get_system_info sample_world
      = Inr [(''CPU'', PyStr (platform_platform (host sample_world))),
             (''Architecture'', PyStr (platform_machine (host sample_world))),
             (''Cores'', count_val (cpu_count_logical (host sample_world))),
             (''Physical Cores'', count_val (cpu_count_physical (host sample_world))),
             (''Total Memory (GB)'', gigabytes (virtual_memory_total (host sample_world))),
             (''Disk Type'', PyStr ''ext4''),
             (''Total Disk Space (GB)'', gigabytes (disk_usage_total (host sample_world))),
             (''Python Version'', PyStr (sys_version (host sample_world)))]"
    by (simp add: storage_get_system_info_def sample_world_def sample_host_def)
  obtain recorded w1 where
    before: "build_results ?before [] (print ?heading sample_world) = (Inr recorded, w1)"
    and out: "stdout w1 = [?heading]" and log: "files w1 storage_LOG_FILE = None"
    by (simp add: sample_defs benchmark_sequential_read_def path_exists_def Let_def)
  have body: "raising_unit OSError w1 = (Inl OSError, w1)" by (simp add: raising_unit_def)
  have entries: "storage_entries storage_random_raises
      = ?before @ (''Random Read/Write Speed'', raising_unit OSError) # ?after"
    by (simp add: storage_entries_def storage_random_raises_def)
  have "run_storage_benchmarks storage_random_raises sample_world = (Inl OSError, w1)"
    unfolding run_storage_benchmarks_def entries
    by (rule run_suite_unit_raises[where get_info = storage_get_system_info and w = sample_world
          and body = "raising_unit OSError", OF info before body])
  with out log show ?thesis by simp
qed

text \<open>
  Against claim C1 as stated: the CPU suite on a host where the matrix multiplication
  raises MemoryError. The run ends with that exception; no outcome is recorded for the
  function, the functions after it are not called (the clock was read ten times, twice
  by each of the five functions before it) and no report is printed or written.
\<close>

theorem run_benchmarks_aborts_counterexample:
  "fst (run_benchmarks cpu_numpy_raises sample_world) = Inl MemoryError \<and>
   files (snd (run_benchmarks cpu_numpy_raises sample_world)) cpu_LOG_FILE = None \<and>
   stdout (snd (run_benchmarks cpu_numpy_raises sample_world)) = [''Running CPU Benchmarks...\<newline>''] \<and>
   ticks (snd (run_benchmarks cpu_numpy_raises sample_world)) = 10"
  by (simp add: run_benchmarks_def run_suite_def cpu_get_system_info_def cpu_entries_def
      cpu_numpy_raises_def cpu_all_return_def benchmark_prime_numbers_def
      benchmark_sieve_of_eratosthenes_def sample_defs Let_def)

text \<open>
  Claim C2, as the code has it. For every list of entries with pairwise distinct names,
  when \<^verbatim>\<open>get_system_info\<close> returns a profile and every benchmark function returns a float
  result, the run succeeds and its report has exactly one outcome per function, under the
  names and in the order of the list; the \<open>k\<close>-th outcome is the tuple the \<open>k\<close>-th
  function returned when called in the world the functions before it left; the dict
  recorded after the first \<open>k\<close> functions is the first \<open>k\<close> entries of the final one (a
  later function changes or drops none of them); and the block appended to the log and
  the lines printed show these outcomes in that order.
\<close>

theorem run_suite_complete_report:
  assumes "get_info w = Inr si"
      and "distinct (map fst entries)"
      and "units_return entries (print heading w)"
  shows "map fst (returned entries (print heading w)) = map fst entries \<and>
         (\<forall>k<length entries.
            snd (entries ! k) (world_after (take k entries) (print heading w))
              = (Inr (snd (numeric (returned entries (print heading w) ! k))),
                 world_after (take (Suc k) entries) (print heading w))) \<and>
         (\<forall>k\<le>length entries.
            build_results (take k entries) [] (print heading w)
              = (Inr (take k (map numeric (returned entries (print heading w)))),
                 world_after (take k entries) (print heading w))) \<and>
         run_suite heading get_info entries result_line
             (log_results_to path title label result_line) saved w
           = (Inr (),
              (world_after entries (print heading w))
                \<lparr>stdout := stdout (world_after entries (print heading w)) @
                     map success_line (returned entries (print heading w)) @ [saved],
                 files := (files (world_after entries (print heading w)))(path \<mapsto>
                     contents (world_after entries (print heading w)) path @
                     report_block (float_repr (host (world_after entries (print heading w))))
                       title label si
                       (map success_line (returned entries (print heading w))))\<rparr>)"
proof -
  let ?w0 = "print heading w"
  have whole: "build_results entries [] ?w0
      = (Inr (map numeric (returned entries ?w0)), world_after entries ?w0)"
    and names: "map fst (returned entries ?w0) = map fst entries"
    using build_results_return[OF assms(3), of "[]"] assms(2) by simp_all
  have called: "snd (entries ! k) (world_after (take k entries) ?w0)
        = (Inr (snd (numeric (returned entries ?w0 ! k))), world_after (take (Suc k) entries) ?w0)"
    if "k < length entries" for k
    using assms(3) that by (rule returned_nth)
  have prefixes: "build_results (take k entries) [] ?w0
        = (Inr (take k (map numeric (returned entries ?w0))), world_after (take k entries) ?w0)"
    if "k \<le> length entries" for k
  proof -
    have ret: "units_return (take k entries @ drop k entries) ?w0" using assms(3) by simp
    have "distinct (map fst [] @ map fst (take k entries))"
      using assms(2) by (simp add: distinct_take take_map[symmetric])
    with units_return_append[OF ret]
    have "build_results (take k entries) [] ?w0
        = (Inr ([] @ map numeric (returned (take k entries) ?w0)), world_after (take k entries) ?w0)"
      using build_results_return[of "take k entries" ?w0 "[]"] by blast
    then show ?thesis by (simp add: returned_take[OF assms(3)] take_map)
  qed
  show ?thesis
    using names called prefixes
      run_suite_numeric[where get_info = get_info and w = w, OF assms(1) whole] by blast
qed

text \<open>
  The memory suite with functions that return, on a clock that advances by a quarter of
  a second a reading: five outcomes of 0.25 s in the order of the suite, printed one line
  each between the heading and the closing line.
\<close>

theorem run_suite_complete_report_witness:
  "returned (memory_entries memory_all_return)
       (print ''Running Memory Benchmarks...\<newline>'' sample_world)
     = [(''Memory Read/Write Speed'', 1 / 4, ''size=500MB''),
        (''Memory Bandwidth Test'', 1 / 4, ''size=500MB''),
        (''Memory Allocation Stress Test'', 1 / 4, ''size=1000MB''),
        (''Page Faults Test'', 1 / 4, ''iterations=1000000''),
        (''Random Access Latency'', 1 / 4, ''iterations=100000'')] \<and>
   fst (run_memory_benchmarks memory_all_return sample_world) = Inr () \<and>
   stdout (snd (run_memory_benchmarks memory_all_return sample_world))
     = [''Running Memory Benchmarks...\<newline>'',
        ''Memory Read/Write Speed (size=500MB): 0.25 sec'',
        ''Memory Bandwidth Test (size=500MB): 0.25 sec'',
        ''Memory Allocation Stress Test (size=1000MB): 0.25 sec'',
        ''Page Faults Test (iterations=1000000): 0.25 sec'',
        ''Random Access Latency (iterations=100000): 0.25 sec'',
        ''\<newline>Memory benchmark results saved to: benchmark_memory_log.txt'']"
proof -
  let ?heading = "''Running Memory Benchmarks...\<newline>''"
  obtain si where info: "memory_get_system_info sample_world = Inr si"
    by (simp add: memory_get_system_info_def)
  have names: "distinct (map fst (memory_entries memory_all_return))"
    by (simp add: memory_entries_def)
  have size: "str_nat 500 = ''500''" by (simp add: str_nat.simps digit_char_def)
  have ret: "units_return (memory_entries memory_all_return) (print ?heading sample_world)"
    by (simp add: memory_entries_def memory_all_return_def benchmark_memory_bandwidth_def
        sample_defs Let_def)
  have vals: "returned (memory_entries memory_all_return) (print ?heading sample_world)
     = [(''Memory Read/Write Speed'', 1 / 4, ''size=500MB''),
        (''Memory Bandwidth Test'', 1 / 4, ''size=500MB''),
        (''Memory Allocation Stress Test'', 1 / 4, ''size=1000MB''),
        (''Page Faults Test'', 1 / 4, ''iterations=1000000''),
        (''Random Access Latency'', 1 / 4, ''iterations=100000'')]"
    by (simp add: memory_entries_def memory_all_return_def benchmark_memory_bandwidth_def
        sample_defs Let_def size)
  have out: "stdout (world_after (memory_entries memory_all_return) (print ?heading sample_world))
      = [?heading]"
    by (simp add: memory_entries_def memory_all_return_def benchmark_memory_bandwidth_def
        sample_defs Let_def)
  have fmt: "format_2f (1 / 4) = ''0.25''"
    by (simp add: format_2f_def round_half_even_def Let_def str_nat.simps digit_char_def)
  from run_suite_complete_report[where get_info = memory_get_system_info and w = sample_world,
      OF info names ret, of memory_LOG_FILE "''Memory Benchmark Run ''"
        "''Memory Benchmark Results:''"
        "''\<newline>Memory benchmark results saved to: '' @ memory_LOG_FILE"]
  have "run_memory_benchmarks memory_all_return sample_world
       = (Inr (),
          (world_after (memory_entries memory_all_return) (print ?heading sample_world))
            \<lparr>stdout := stdout (world_after (memory_entries memory_all_return) (print ?heading sample_world)) @
                 map success_line (returned (memory_entries memory_all_return) (print ?heading sample_world)) @
                 [''\<newline>Memory benchmark results saved to: '' @ memory_LOG_FILE],
             files := (files (world_after (memory_entries memory_all_return) (print ?heading sample_world)))
               (memory_LOG_FILE \<mapsto>
                 contents (world_after (memory_entries memory_all_return) (print ?heading sample_world)) memory_LOG_FILE @
                 report_block (float_repr (host (world_after (memory_entries memory_all_return) (print ?heading sample_world))))
                   ''Memory Benchmark Run '' ''Memory Benchmark Results:'' si
                   (map success_line (returned (memory_entries memory_all_return) (print ?heading sample_world))))\<rparr>)"
    unfolding run_memory_benchmarks_def memory_log_results_def by blast
  then show ?thesis
    unfolding vals out by (simp add: vals success_line_def fmt memory_LOG_FILE_def)
qed

text \<open>
  Against claim C2 as stated: the memory suite on a host where the array copy raises
  MemoryError. The first function returned and its outcome was stored, yet the run ends
  with the exception and there is no report: the outcome already recorded is lost.
\<close>

theorem run_memory_benchmarks_discards_counterexample:
  "fst (build_results [(''Memory Read/Write Speed'', benchmark_memory_read_write memory_bandwidth_raises)] []
          (print ''Running Memory Benchmarks...\<newline>'' sample_world))
     = Inr [(''Memory Read/Write Speed'', (Some (1 / 4), ''size=500MB''))] \<and>
   fst (run_memory_benchmarks memory_bandwidth_raises sample_world) = Inl MemoryError \<and>
   files (snd (run_memory_benchmarks memory_bandwidth_raises sample_world)) memory_LOG_FILE = None \<and>
   stdout (snd (run_memory_benchmarks memory_bandwidth_raises sample_world))
     = [''Running Memory Benchmarks...\<newline>'']"
  by (simp add: run_memory_benchmarks_def run_suite_def memory_get_system_info_def
      memory_entries_def memory_bandwidth_raises_def memory_all_return_def
      benchmark_memory_bandwidth_def sample_defs Let_def)

text \<open>
  The names of every suite are pairwise distinct, and so are the names of the dict any
  list of entries builds.
\<close>

lemma suite_names_distinct:
  "distinct (map fst (cpu_entries c)) \<and> distinct (map fst (memory_entries m)) \<and>
   distinct (map fst (storage_entries s)) \<and> distinct (map fst (network_entries n interface))"
  by (simp add: cpu_entries_def memory_entries_def storage_entries_def network_entries_def)

lemma built_names_distinct:
  "build_results entries [] w = (Inr results, w') \<Longrightarrow> distinct (map fst results)"
  using build_results_distinct[of entries "[]" w results w'] by simp

text \<open>
  Claim C4, as the code has it. For every Success outcome of
  \<^verbatim>\<open>benchmark_prime_numbers\<close>, \<^verbatim>\<open>benchmark_sieve_of_eratosthenes\<close>,
  \<^verbatim>\<open>benchmark_memory_bandwidth\<close> and \<^verbatim>\<open>benchmark_sequential_read\<close>, the recorded
  duration is the reading of \<^verbatim>\<open>time.time()\<close>, the wall clock, taken after the timed
  section minus the reading taken before it, with no clamp.
\<close>

theorem duration_is_clock_difference:
  "fst (benchmark_prime_numbers n w)
     = Inr (Some (fst (time_time (snd (time_time w))) - fst (time_time w)), ''n='' @ str_nat n) \<and>
   fst (benchmark_sieve_of_eratosthenes n w)
     = Inr (Some (fst (time_time (snd (time_time w))) - fst (time_time w)), ''n='' @ str_nat n) \<and>
   (np_ones ext ((size_mb * 1024 * 1024) div 8) w = (Inr A, w0) \<and>
    np_copy ext A (snd (time_time w0)) = (Inr B, w2) \<longrightarrow>
      fst (benchmark_memory_bandwidth ext size_mb w)
        = Inr (Some (fst (time_time w2) - fst (time_time w0)),
               ''size='' @ str_nat size_mb @ ''MB'')) \<and>
   (path_exists w TEST_FILE \<and> TEST_FILE \<notin> set (read_fails w) \<longrightarrow>
      fst (benchmark_sequential_read w)
        = Inr (Some (fst (time_time (snd (time_time w))) - fst (time_time w)),
               ''file='' @ TEST_FILE))"
  by (simp add: benchmark_prime_numbers_def benchmark_sieve_of_eratosthenes_def
      benchmark_memory_bandwidth_def benchmark_sequential_read_def time_time_def Let_def)

text \<open>
  On a clock that advances by a quarter of a second a reading, the prime search, the
  array copy and the sequential read of an existing file all report 0.25.
\<close>

theorem duration_is_clock_difference_witness:
  "fst (benchmark_prime_numbers 50000 sample_world) = Inr (Some (1 / 4), ''n=50000'') \<and>
   fst (benchmark_memory_bandwidth memory_all_return 500 sample_world)
     = Inr (Some (1 / 4), ''size=500MB'') \<and>
   fst (benchmark_sequential_read (sample_world\<lparr>files := [TEST_FILE \<mapsto> ''data'']\<rparr>))
     = Inr (Some (1 / 4), ''file=test_benchmark.dat'')"
proof -
  let ?w = "sample_world\<lparr>files := [TEST_FILE \<mapsto> ''data'']\<rparr>"
  have ones: "np_ones memory_all_return ((500 * 1024 * 1024) div 8) sample_world
      = (Inr 65536000, sample_world)"
    by (simp add: memory_all_return_def)
  have copy: "np_copy memory_all_return 65536000 (snd (time_time sample_world))
      = (Inr 65536000, snd (time_time sample_world))"
    by (simp add: memory_all_return_def)
  have readable: "path_exists ?w TEST_FILE \<and> TEST_FILE \<notin> set (read_fails ?w)"
    by (simp add: path_exists_def sample_world_def)
  from duration_is_clock_difference[of 50000 sample_world memory_all_return 500 65536000
      sample_world 65536000 "snd (time_time sample_world)"]
    duration_is_clock_difference[of 0 ?w memory_all_return 0 0 ?w 0 ?w]
    ones copy readable
  show ?thesis
    by (simp add: sample_world_def time_time_def str_nat.simps digit_char_def TEST_FILE_def)
qed

text \<open>
  Against claim C4 as stated: when the wall clock is set back from 10 to 5 between the two
  readings, both prime benchmarks return the duration -5.
\<close>

theorem negative_duration_counterexample:
  "fst (benchmark_prime_numbers 50000 clock_set_back_world) = Inr (Some (- 5), ''n=50000'') \<and>
   fst (benchmark_sieve_of_eratosthenes 50000 clock_set_back_world) = Inr (Some (- 5), ''n=50000'')"
  by (simp add: benchmark_prime_numbers_def benchmark_sieve_of_eratosthenes_def time_time_def
      Let_def clock_set_back_world_def sample_world_def str_nat.simps digit_char_def)

lemma gpu_get_system_info_raises: "gpu_get_system_info w = Inl NameError"
  by (simp add: gpu_get_system_info_def)

text \<open>
  Claim C5 at the failing input. \<^verbatim>\<open>benchmark_sequential_read\<close> returns
  \<^verbatim>\<open>(None, "File not found")\<close> when the test file is absent. The storage script's
  \<^verbatim>\<open>log_results\<close> and its print loop format every result with \<^verbatim>\<open>.2f\<close>: on this entry
  they raise TypeError, and the log is left with the header of a block and no outcome
  line. The network script's \<^verbatim>\<open>log_results\<close>, which tests the type of the result first,
  writes the line with the message and \<^verbatim>\<open>None\<close>.
\<close>

theorem storage_log_results_none_raises:
  "fst (benchmark_sequential_read sample_world) = Inr (None, ''File not found'') \<and>
   fst (storage_log_results [] [(''Sequential Read Speed'', (None, ''File not found''))] sample_world)
     = Inl TypeError \<and>
   files (snd (storage_log_results [] [(''Sequential Read Speed'', (None, ''File not found''))]
              sample_world)) storage_LOG_FILE
     = Some (unlines [banner, ''Storage Benchmark Run '', banner, '''', ''Storage Benchmark Results:'']) \<and>
   fst (print_results result_line [(''Sequential Read Speed'', (None, ''File not found''))] sample_world)
     = Inl TypeError \<and>
   fst (network_log_results [] [(''Sequential Read Speed'', (None, ''File not found''))] sample_world)
     = Inr () \<and>
   files (snd (network_log_results [] [(''Sequential Read Speed'', (None, ''File not found''))]
              sample_world)) network_LOG_FILE
     = Some (unlines [banner, ''Network Benchmark Run '', banner, '''', ''Network Benchmark Results:'',
               ''Sequential Read Speed (File not found): None'', '''', ''''])"
  by (simp add: benchmark_sequential_read_def path_exists_def storage_log_results_def
      network_log_results_def log_results_to_eq log_text_def unlines_def sample_world_def
      contents_def)

text \<open>
  Claim C6. Whatever the results are, and whether the loop over them ends normally or by
  an exception, \<^verbatim>\<open>log_results\<close> of the CPU script leaves the log file existing with its
  former contents as a prefix of the new ones, leaves no file object open, and changes no
  other file. Two writes one after the other, of reports whose results are floats, leave
  the former contents followed by the first block followed by the second block.
\<close>

theorem log_results_pure_append:
  "prefix (contents w cpu_LOG_FILE) (contents (snd (cpu_log_results si results w)) cpu_LOG_FILE) \<and>
   files (snd (cpu_log_results si results w)) cpu_LOG_FILE \<noteq> None \<and>
   open_handles (snd (cpu_log_results si results w)) = open_handles w \<and>
   (\<forall>p. p \<noteq> cpu_LOG_FILE \<longrightarrow> files (snd (cpu_log_results si results w)) p = files w p) \<and>
   cpu_log_results si2 (map numeric timed2) (snd (cpu_log_results si1 (map numeric timed1) w))
     = (Inr (),
        w\<lparr>files := (files w)(cpu_LOG_FILE \<mapsto> contents w cpu_LOG_FILE @
             report_block (float_repr (host w)) ''CPU Benchmark Run '' ''Benchmark Results:''
               si1 (map success_line timed1) @
             report_block (float_repr (host w)) ''CPU Benchmark Run '' ''Benchmark Results:''
               si2 (map success_line timed2))\<rparr>)"
  by (simp add: cpu_log_results_def log_results_to_eq log_text_numeric rendered_numeric contents_def)

text \<open>
  A log that holds earlier text: a write that raises midway keeps that text and closes
  the file; two complete writes put their two blocks after it.
\<close>

theorem log_results_pure_append_witness:
  "prefix ''earlier runs\<newline>''
     (contents (snd (cpu_log_results [] [(''SHA256 Hashing'', (None, ''iterations=100000''))]
        (sample_world\<lparr>files := [cpu_LOG_FILE \<mapsto> ''earlier runs\<newline>'']\<rparr>))) cpu_LOG_FILE) \<and>
   fst (cpu_log_results [] [(''SHA256 Hashing'', (None, ''iterations=100000''))]
        (sample_world\<lparr>files := [cpu_LOG_FILE \<mapsto> ''earlier runs\<newline>'']\<rparr>)) = Inl TypeError \<and>
   open_handles (snd (cpu_log_results [] [(''SHA256 Hashing'', (None, ''iterations=100000''))]
        (sample_world\<lparr>files := [cpu_LOG_FILE \<mapsto> ''earlier runs\<newline>'']\<rparr>))) = 0 \<and>
   files (snd (cpu_log_results [] (map numeric [(''Sorting Algorithm'', 1 / 4, ''n=1000000'')])
           (snd (cpu_log_results [] (map numeric [(''SHA256 Hashing'', 1 / 8, ''iterations=100000'')])
              (sample_world\<lparr>files := [cpu_LOG_FILE \<mapsto> ''earlier runs\<newline>'']\<rparr>))))) cpu_LOG_FILE
     = Some (''earlier runs\<newline>'' @
         unlines [banner, ''CPU Benchmark Run '', banner, '''', ''Benchmark Results:'',
                  ''SHA256 Hashing (iterations=100000): 0.12 sec'', '''', ''''] @
         unlines [banner, ''CPU Benchmark Run '', banner, '''', ''Benchmark Results:'',
                  ''Sorting Algorithm (n=1000000): 0.25 sec'', '''', ''''])"
proof -
  let ?w = "sample_world\<lparr>files := [cpu_LOG_FILE \<mapsto> ''earlier runs\<newline>'']\<rparr>"
  have err: "fst (cpu_log_results [] [(''SHA256 Hashing'', (None, ''iterations=100000''))] ?w)
      = Inl TypeError"
    by (simp add: cpu_log_results_def log_results_to_eq)
  have old: "contents ?w cpu_LOG_FILE = ''earlier runs\<newline>''" "open_handles ?w = 0"
    by (simp_all add: contents_def sample_world_def)
  have fmt: "format_2f (1 / 8) = ''0.12''" "format_2f (1 / 4) = ''0.25''"
    by (simp_all add: format_2f_def round_half_even_def Let_def str_nat.simps digit_char_def)
  from log_results_pure_append[of ?w "[]" "[(''SHA256 Hashing'', (None, ''iterations=100000''))]"
      "[]" "[(''Sorting Algorithm'', 1 / 4, ''n=1000000'')]"
      "[]" "[(''SHA256 Hashing'', 1 / 8, ''iterations=100000'')]"]
  show ?thesis
    unfolding old using err
    by (simp add: report_block_def success_line_def fmt unlines_def)
qed

text \<open>
  Claim C7, as the code has it. \<^verbatim>\<open>get_system_info\<close> has no \<^verbatim>\<open>try\<close>: it returns a profile
  with all its keys when every fact source returns, which for the storage script needs at
  least one disk partition; with no partition listed the IndexError of
  \<^verbatim>\<open>disk_partitions()[0]\<close> leaves the function and no profile is returned. The CPU
  script's profile reads no list and is always returned.
\<close>

theorem storage_profile_needs_partition:
  "(disk_partitions (host w) = [] \<longrightarrow> storage_get_system_info w = Inl IndexError) \<and>
   (disk_partitions (host w) \<noteq> [] \<longrightarrow>
      (\<exists>p. storage_get_system_info w = Inr p \<and>
           map fst p = [''CPU'', ''Architecture'', ''Cores'', ''Physical Cores'',
             ''Total Memory (GB)'', ''Disk Type'', ''Total Disk Space (GB)'', ''Python Version''] \<and>
           map_of p ''Disk Type'' = Some (PyStr (hd (disk_partitions (host w)))))) \<and>
   (\<exists>p. cpu_get_system_info w = Inr p \<and>
        map fst p = [''CPU'', ''Architecture'', ''Cores'', ''Physical Cores'', ''Python Version''])"
  by (simp add: storage_get_system_info_def cpu_get_system_info_def split: list.splits)

text \<open>
  The sample host has an ext4 partition and gets a profile; the same host with no
  partition listed gets IndexError.
\<close>

theorem storage_profile_needs_partition_witness:
  "(\<exists>p. storage_get_system_info sample_world = Inr p \<and>
        map_of p ''Disk Type'' = Some (PyStr ''ext4'')) \<and>
   storage_get_system_info (sample_world\<lparr>host := sample_host\<lparr>disk_partitions := []\<rparr>\<rparr>)
     = Inl IndexError"
  using storage_profile_needs_partition[of sample_world]
    storage_profile_needs_partition[of "sample_world\<lparr>host := sample_host\<lparr>disk_partitions := []\<rparr>\<rparr>"]
  by (auto simp: sample_world_def sample_host_def)

text \<open>
  Against claim C7 as stated: on a host that lists no disk partition the storage
  script's \<^verbatim>\<open>get_system_info\<close> raises IndexError instead of returning a profile.
\<close>

theorem profile_aborts_counterexample:
  "storage_get_system_info no_partition_world = Inl IndexError"
  by (simp add: storage_get_system_info_def no_partition_world_def sample_world_def)

text \<open>
  Claim C8, as the code has it. Started without \<^verbatim>\<open>--interface\<close> on a host that has
  neither \<^verbatim>\<open>eth0\<close> nor \<^verbatim>\<open>wlan0\<close>, the network script prints the message that no valid
  interface was found and ends: no benchmark function is called, nothing else in the
  world changes, and the exit status is 0.
\<close>

theorem network_main_without_interface:
  assumes "''eth0'' \<notin> set (net_if_addrs (host w))"
      and "''wlan0'' \<notin> set (net_if_addrs (host w))"
  shows "network_main ext None w
           = (0, print ''No valid network interface found. Please specify manually.'' w)"
  using assms by (simp add: network_main_def get_default_interface_def)

text \<open>
  A host with only the loopback interface: one line printed, exit status 0.
\<close>

theorem network_main_without_interface_witness:
  "network_main network_all_return None loopback_only_world
     = (0, loopback_only_world\<lparr>stdout := [''No valid network interface found. Please specify manually.'']\<rparr>)"
proof -
  have "''eth0'' \<notin> set (net_if_addrs (host loopback_only_world))"
    and "''wlan0'' \<notin> set (net_if_addrs (host loopback_only_world))"
    by (simp_all add: loopback_only_world_def sample_world_def sample_host_def)
  from network_main_without_interface[OF this, of network_all_return]
  show ?thesis by (simp add: print_def loopback_only_world_def sample_world_def)
qed

text \<open>
  Against claim C8 as stated: with only the loopback interface and no option given, the
  exit status of the network script is 0.
\<close>

theorem exit_status_zero_counterexample:
  "fst (network_main network_all_return None loopback_only_world) = 0"
  by (simp add: network_main_def get_default_interface_def loopback_only_world_def
      sample_world_def sample_host_def)



end
